theory Spec2Isabelle
  imports Main
begin

section \<open>Computations\<close>

text \<open>
  The C++ functions of \<^verbatim>\<open>main.cpp\<close> are recursive and take \<^verbatim>\<open>std::function\<close>
  arguments, which may themselves call back into the library (the lambda of \<^verbatim>\<open>filter\<close>
  does). A call is therefore modelled as a computation: \<open>None\<close> when the call does not
  return, \<open>Some (v, n)\<close> when it returns the value \<open>v\<close> after \<open>n\<close> dispatches of
  \<^verbatim>\<open>List<T>::cases\<close>, the only operation that looks at a node. The counter is the
  measure of work: every call of \<^verbatim>\<open>foldr\<close> dispatches on exactly one node.
\<close>

type_synonym 'a comp = "('a \<times> nat) option"

definition return :: "'a \<Rightarrow> 'a comp" where
  "return v = Some (v, 0)"

definition bind :: "'a comp \<Rightarrow> ('a \<Rightarrow> 'b comp) \<Rightarrow> 'b comp" where
  "bind m k = (case m of None \<Rightarrow> None
     | Some (v, n) \<Rightarrow> (case k v of None \<Rightarrow> None | Some (w, j) \<Rightarrow> Some (w, n + j)))"

definition tick :: "'a comp \<Rightarrow> 'a comp" where
  "tick m = (case m of None \<Rightarrow> None | Some (v, n) \<Rightarrow> Some (v, Suc n))"

definition result :: "'a comp \<Rightarrow> 'a option" where
  "result m = map_option fst m"

definition visits :: "'a comp \<Rightarrow> nat option" where
  "visits m = map_option snd m"

section \<open>The List algebraic data type\<close>

text \<open>
  \<^verbatim>\<open>class List<T>\<close> stores a tag (\<^verbatim>\<open>enum Tag { Cons, Nil }\<close>), a head and a tail
  (\<^verbatim>\<open>std::shared_ptr<List<T>>\<close>). Its constructor is private and its fields are written
  only by \<^verbatim>\<open>List<T>::cons\<close> and \<^verbatim>\<open>List<T>::nil\<close>, on a freshly allocated object, and
  read only by \<^verbatim>\<open>cases\<close>, which reads head and tail under the tag \<^verbatim>\<open>Cons\<close> alone. So
  an object is one of the two variants of the Haskell type the source quotes,
  \<^verbatim>\<open>data List a = Cons { head :: a, tail :: List a } | Nil\<close>; the constructors carry
  the names of the two tags.
\<close>

datatype 'a List = ConsT 'a "'a List" | NilT

text \<open>\<^verbatim>\<open>R List<T>::cases(cons_case, nil_case)\<close>: the switch on the tag.\<close>

definition cases :: "'t List \<Rightarrow> ('t \<Rightarrow> 't List \<Rightarrow> 'r) \<Rightarrow> (unit \<Rightarrow> 'r) \<Rightarrow> 'r" where
  "cases list cons_case nil_case =
     (case list of ConsT head tail \<Rightarrow> cons_case head tail | NilT \<Rightarrow> nil_case ())"

text \<open>The static members \<^verbatim>\<open>List<T>::cons\<close> and \<^verbatim>\<open>List<T>::nil\<close>.\<close>

definition List_cons :: "'t \<Rightarrow> 't List \<Rightarrow> 't List" where
  "List_cons head tail = ConsT head tail"

definition List_nil :: "'t List" where
  "List_nil = NilT"

text \<open>The free wrappers \<^verbatim>\<open>cons\<close> and \<^verbatim>\<open>nil\<close>, and \<^verbatim>\<open>operator&=\<close>.\<close>

definition cons :: "'t \<Rightarrow> 't List \<Rightarrow> 't List" where
  "cons head tail = List_cons head tail"

definition nil :: "'t List" where
  "nil = List_nil"

definition op_and_assign :: "'t \<Rightarrow> 't List \<Rightarrow> 't List" where
  "op_and_assign head tail = List_cons head tail"

section \<open>The right fold\<close>

text \<open>
  The recursive call of \<^verbatim>\<open>foldr\<close> stands inside the lambda given to \<^verbatim>\<open>cases\<close>; the
  congruence rule tells the function package that the lambda is applied to the fields of
  the list only.
\<close>

lemma cases_cong [fundef_cong]:
  "list = list' \<Longrightarrow> (\<And>h t. list' = ConsT h t \<Longrightarrow> c h t = c' h t) \<Longrightarrow>
   (list' = NilT \<Longrightarrow> n () = n' ()) \<Longrightarrow> cases list c n = cases list' c' n'"
  by (auto simp: cases_def split: List.splits)

text \<open>
  \<^verbatim>\<open>R foldr(std::function<R(T,R)> f, R acc, List<T>::ptr list)\<close>. C++ evaluates the
  argument \<^verbatim>\<open>foldr(f, acc, tail)\<close> before it calls \<^verbatim>\<open>f\<close>: the \<open>bind\<close>.
\<close>

fun foldr_adt :: "('t \<Rightarrow> 'r \<Rightarrow> 'r comp) \<Rightarrow> 'r \<Rightarrow> 't List \<Rightarrow> 'r comp" where
  "foldr_adt f acc list = tick (cases list
      (\<lambda>head tail. bind (foldr_adt f acc tail) (\<lambda>r. f head r))
      (\<lambda>_. return acc))"

declare foldr_adt.simps [simp del]

text \<open>\<^verbatim>\<open>T sum(List<T>::ptr list)\<close>, with \<^verbatim>\<open>(T) 0\<close> the zero of \<open>T\<close>.\<close>

definition sum_adt :: "'t::{plus,zero} List \<Rightarrow> 't comp" where
  "sum_adt list = foldr_adt (\<lambda>i s. return (i + s)) 0 list"

text \<open>
  \<^verbatim>\<open>List<U>::ptr map(std::function<U(T)> f, List<U>::ptr ts)\<close>. The source hands \<open>ts\<close>, a
  \<^verbatim>\<open>List<U>::ptr\<close>, to \<^verbatim>\<open>foldr<List<U>::ptr,T>\<close>, whose list parameter is a
  \<^verbatim>\<open>List<T>::ptr\<close>; the same happens here, where type inference identifies the two
  element types.
\<close>

definition map_adt :: "('u \<Rightarrow> 'u) \<Rightarrow> 'u List \<Rightarrow> 'u List comp" where
  "map_adt f ts = foldr_adt (\<lambda>x us. return (op_and_assign (f x) us)) nil ts"

subsection \<open>Monotonicity, for the definition of the filter\<close>

lemma bind_mono_comp [partial_function_mono]:
  fixes B :: "('p \<Rightarrow> 'q option) \<Rightarrow> 'a comp"
  assumes B: "mono_option B" and C: "\<And>y. mono_option (\<lambda>f. C y f)"
  shows "mono_option (\<lambda>f. bind (B f) (\<lambda>y. C y f))"
proof (rule monotoneI)
  fix f g :: "'p \<Rightarrow> 'q option"
  assume fg: "fun_ord option_ord f g"
  have b: "B f = None \<or> B f = B g"
    using fg by (auto dest: monotoneD [OF B] simp: flat_ord_def)
  have c: "C y f = None \<or> C y f = C y g" for y
    using fg by (auto dest: monotoneD [OF C] simp: flat_ord_def)
  show "option_ord (bind (B f) (\<lambda>y. C y f)) (bind (B g) (\<lambda>y. C y g))"
  proof (cases "B f")
    case None
    then show ?thesis by (simp add: bind_def flat_ord_def)
  next
    case (Some p)
    obtain v n where p: "p = (v, n)" by (cases p)
    from Some b have g: "B g = Some (v, n)" by (simp add: p)
    from c [of v] show ?thesis
      by (auto simp: bind_def flat_ord_def Some p g)
  qed
qed

lemma tick_mono [partial_function_mono]:
  fixes B :: "('p \<Rightarrow> 'q option) \<Rightarrow> 'a comp"
  assumes "mono_option B"
  shows "mono_option (\<lambda>f. tick (B f))"
proof (rule monotoneI)
  fix f g :: "'p \<Rightarrow> 'q option"
  assume fg: "fun_ord option_ord f g"
  have "B f = None \<or> B f = B g"
    using fg by (auto dest: monotoneD [OF assms] simp: flat_ord_def)
  then show "option_ord (tick (B f)) (tick (B g))"
    by (auto simp: tick_def flat_ord_def)
qed

lemma foldr_adt_mono [partial_function_mono]:
  assumes "\<And>x a. mono_option (\<lambda>f. C x a f)"
  shows "mono_option (\<lambda>f. foldr_adt (\<lambda>x a. C x a f) acc list)"
proof (induction list)
  case (ConsT h t)
  show ?case
    unfolding foldr_adt.simps [of _ _ "ConsT h t"] cases_def List.case
    by (intro tick_mono bind_mono_comp ConsT.IH assms)
next
  case NilT
  show ?case
    unfolding foldr_adt.simps [of _ _ NilT] cases_def List.case
    by (simp add: monotone_def flat_ord_def)
qed

subsection \<open>The filter\<close>

text \<open>
  \<^verbatim>\<open>List<T>::ptr filter(std::function<bool(T)> f, List<T>::ptr list)\<close>. The lambda it
  gives to \<^verbatim>\<open>foldr\<close> names its second parameter \<open>tail\<close> and calls \<^verbatim>\<open>filter<T>(f, tail)\<close>
  on it in both branches. That parameter is the accumulator of the fold, so the recursion
  is not on a part of \<open>list\<close> and the function package cannot see it end: the definition
  is the source's equation, taken as a partial function, and that every call returns is
  a theorem below (\<open>filter_adt_returns\<close>).
\<close>

partial_function (option) filter_adt :: "('t \<Rightarrow> bool) \<Rightarrow> 't List \<Rightarrow> 't List comp" where
  "filter_adt f list = foldr_adt
     (\<lambda>head tail.
        if f head then bind (filter_adt f tail) (\<lambda>r. return (op_and_assign head r))
        else filter_adt f tail)
     nil list"

declare filter_adt.simps [code]

section \<open>Printing\<close>

text \<open>
  \<^verbatim>\<open>std::ostream& operator<<(std::ostream& out, List<T> &list)\<close>. The stream is the
  string of the characters written to it so far; \<open>show_elem\<close> stands for the
  \<^verbatim>\<open>operator<<\<close> of the element type \<open>T\<close>, which the instantiation supplies.
\<close>

fun op_shl :: "('t \<Rightarrow> string) \<Rightarrow> string \<Rightarrow> 't List \<Rightarrow> string" where
  "op_shl show_elem out list = cases list
      (\<lambda>head tail. op_shl show_elem (out @ show_elem head @ '' &= '') tail)
      (\<lambda>_. out @ ''nil'')"

declare op_shl.simps [simp del]

text \<open>
  The standard library's \<^verbatim>\<open>operator<<\<close> for \<^verbatim>\<open>int\<close> in its default state: decimal
  digits, with a minus sign for a negative number.
\<close>

definition digit_char :: "nat \<Rightarrow> char" where
  "digit_char d = ''0123456789'' ! d"

fun show_nat :: "nat \<Rightarrow> string" where
  "show_nat n = (if n < 10 then [digit_char n] else show_nat (n div 10) @ [digit_char (n mod 10)])"

declare show_nat.simps [simp del]

definition show_int :: "int \<Rightarrow> string" where
  "show_int i = (if i < 0 then CHR ''-'' # show_nat (nat (- i)) else show_nat (nat i))"

section \<open>The lists of \<open>main\<close>\<close>

text \<open>
  The built-in \<^verbatim>\<open>%\<close> on \<^verbatim>\<open>int\<close> truncates towards zero: the remainder has the sign of
  the dividend. C++ leaves a zero divisor undefined; \<open>main\<close> divides by 2.
\<close>

definition int_rem :: "int \<Rightarrow> int \<Rightarrow> int" where
  "int_rem a b = sgn a * (\<bar>a\<bar> mod \<bar>b\<bar>)"

definition main_as :: "int List" where
  "main_as = cons 1 (cons 2 (cons 3 nil))"

definition main_bs :: "int List" where
  "main_bs = op_and_assign 1 (op_and_assign 2 (op_and_assign 3 nil))"

definition main_cs :: "int List comp" where
  "main_cs = map_adt (\<lambda>x. x * 2) main_bs"

definition main_ds :: "int List comp" where
  "main_ds = filter_adt (\<lambda>x. int_rem x 2 = 0) main_bs"

section \<open>Reading a list\<close>

text \<open>The sequence of the elements of a list, head first.\<close>

fun elems :: "'a List \<Rightarrow> 'a list" where
  "elems (ConsT h t) = h # elems t"
| "elems NilT = []"

text \<open>
  The reference definition of the filter, in the words of the specification:
  \<^verbatim>\<open>foldRight((x, acc) -> pred(x) ? prepend(x, acc) : acc, empty<T>(), list)\<close>.
\<close>

definition filter_spec :: "('t \<Rightarrow> bool) \<Rightarrow> 't List \<Rightarrow> 't List comp" where
  "filter_spec pred list =
     foldr_adt (\<lambda>x acc. return (if pred x then cons x acc else acc)) nil list"

text \<open>
  The number of dispatches of a call of \<open>filter_adt\<close>, as a function of the elements of
  its list: one for the node, those of the fold of the tail, and those of the call of
  the filter on the accumulator, which is the filtered tail.
\<close>

fun filter_visits :: "('a \<Rightarrow> bool) \<Rightarrow> 'a list \<Rightarrow> nat" where
  "filter_visits p [] = 1"
| "filter_visits p (x # xs) = Suc (filter_visits p xs + filter_visits p (filter p xs))"

text \<open>The list with the given elements, head first.\<close>

fun of_elems :: "'a list \<Rightarrow> 'a List" where
  "of_elems [] = NilT"
| "of_elems (x # xs) = ConsT x (of_elems xs)"

section \<open>Basic facts\<close>

lemmas ctor_defs = cons_def nil_def op_and_assign_def List_cons_def List_nil_def

lemma tick_Some [simp]: "tick (Some (v, n)) = Some (v, Suc n)"
  by (simp add: tick_def)

lemma tick_None [simp]: "tick None = None"
  by (simp add: tick_def)

lemma bind_Some [simp]:
  "bind (Some (v, n)) k = (case k v of None \<Rightarrow> None | Some (w, j) \<Rightarrow> Some (w, n + j))"
  by (simp add: bind_def)

lemma bind_None [simp]: "bind None k = None"
  by (simp add: bind_def)

lemma result_Some [simp]: "result (Some (v, n)) = Some v"
  by (simp add: result_def)

lemma result_None [simp]: "result None = None"
  by (simp add: result_def)

lemma visits_Some [simp]: "visits (Some (v, n)) = Some n"
  by (simp add: visits_def)

lemma result_tick: "result (tick m) = result m"
  by (cases m) auto

lemma result_bind: "result (bind m k) = Option.bind (result m) (\<lambda>v. result (k v))"
  by (cases m) (auto split: option.splits)

lemma cases_ConsT [simp]: "cases (ConsT h t) c n = c h t"
  by (simp add: cases_def)

lemma cases_NilT [simp]: "cases NilT c n = n ()"
  by (simp add: cases_def)

lemma elems_of_elems [simp]: "elems (of_elems xs) = xs"
  by (induction xs) simp_all

lemma of_elems_elems [simp]: "of_elems (elems l) = l"
  by (induction l) simp_all

subsection \<open>The fold, one node at a time\<close>

lemma foldr_adt_NilT: "foldr_adt f acc NilT = Some (acc, 1)"
  by (simp add: foldr_adt.simps [of _ _ NilT] return_def)

lemma foldr_adt_ConsT: "foldr_adt f acc (ConsT h t) = tick (bind (foldr_adt f acc t) (f h))"
  by (simp add: foldr_adt.simps [of _ _ "ConsT h t"])

text \<open>
  With a combining function that returns and dispatches on no node, the fold returns the
  right fold of the elements after one dispatch for each node of the list, the empty
  one included.
\<close>

lemma foldr_adt_pure:
  "foldr_adt (\<lambda>x a. return (g x a)) acc l =
     Some (foldr g (elems l) acc, Suc (length (elems l)))"
  by (induction l) (simp_all add: foldr_adt_NilT foldr_adt_ConsT return_def)

text \<open>With a combining function that always returns, the fold returns.\<close>

lemma foldr_adt_returns:
  assumes "\<And>x a. f x a \<noteq> None"
  shows "foldr_adt f acc l \<noteq> None"
proof (induction l)
  case NilT
  show ?case by (simp add: foldr_adt_NilT)
next
  case (ConsT h t)
  then obtain r n where t: "foldr_adt f acc t = Some (r, n)" by auto
  from assms [of h r] obtain w j where "f h r = Some (w, j)" by auto
  with t show ?case by (simp add: foldr_adt_ConsT)
qed

subsection \<open>Sum and map\<close>

lemma sum_adt_eq: "sum_adt l = Some (foldr (+) (elems l) 0, Suc (length (elems l)))"
  by (simp add: sum_adt_def foldr_adt_pure)

lemma foldr_ConsT_map: "foldr (\<lambda>x. ConsT (f x)) xs NilT = of_elems (map f xs)"
  by (induction xs) simp_all

lemma map_adt_eq: "map_adt f l = Some (of_elems (map f (elems l)), Suc (length (elems l)))"
  by (simp add: map_adt_def foldr_adt_pure ctor_defs foldr_ConsT_map)

subsection \<open>The filter\<close>

lemma foldr_ConsT_filter:
  "foldr (\<lambda>x acc. if p x then ConsT x acc else acc) xs NilT = of_elems (filter p xs)"
  by (induction xs) simp_all

lemma filter_spec_eq:
  "filter_spec p l = Some (of_elems (filter p (elems l)), Suc (length (elems l)))"
  unfolding filter_spec_def ctor_defs
  by (simp add: foldr_adt_pure foldr_ConsT_filter)

text \<open>
  The fold inside \<open>filter_adt\<close>, when the calls of the filter made by the lambda are
  known to return the filtered list: they are made on accumulators, which are no longer
  than the tail they come from.
\<close>

lemma filter_adt_fold:
  assumes calls: "\<And>a. length (elems a) \<le> n \<Longrightarrow>
     filter_adt f a = Some (of_elems (filter f (elems a)), filter_visits f (elems a))"
  shows "length (elems s) \<le> Suc n \<Longrightarrow>
     foldr_adt
       (\<lambda>head tail.
          if f head then bind (filter_adt f tail) (\<lambda>r. return (op_and_assign head r))
          else filter_adt f tail)
       nil s
     = Some (of_elems (filter f (elems s)), filter_visits f (elems s))"
proof (induction s)
  case NilT
  show ?case by (simp add: foldr_adt_NilT ctor_defs)
next
  case (ConsT h t)
  have len: "length (elems (of_elems (filter f (elems t)))) \<le> n"
    using ConsT.prems by (simp add: le_trans [OF length_filter_le])
  from ConsT show ?case
    by (simp add: foldr_adt_ConsT calls [OF len] return_def ctor_defs)
qed

lemma filter_adt_bounded:
  "length (elems l) \<le> n \<Longrightarrow>
   filter_adt f l = Some (of_elems (filter f (elems l)), filter_visits f (elems l))"
proof (induction n arbitrary: l)
  case 0
  then have "l = NilT" by (cases l) simp_all
  then show ?case
    by (simp add: filter_adt.simps [of f NilT] foldr_adt_NilT ctor_defs)
next
  case (Suc n)
  show ?case
    by (subst filter_adt.simps) (rule filter_adt_fold [OF Suc.IH Suc.prems])
qed

text \<open>
  Every call of the filter returns: the filtered list, after \<open>filter_visits\<close>
  dispatches.
\<close>

lemma filter_adt_eq:
  "filter_adt f l = Some (of_elems (filter f (elems l)), filter_visits f (elems l))"
  by (rule filter_adt_bounded [OF order_refl])

lemma filter_adt_returns: "\<exists>r n. filter_adt f l = Some (r, n)"
  by (simp add: filter_adt_eq)

text \<open>
  The program's filter and the reference definition return the same list: the
  accumulator that the lambda filters once more is a filtered list already.
\<close>

lemma filter_adt_result_eq:
  "\<exists>r. result (filter_adt pred l) = Some r \<and> result (filter_spec pred l) = Some r"
  by (simp add: filter_adt_eq filter_spec_eq)

text \<open>
  The filter dispatches at least once for each node, and more often than that on a list
  that is not empty, whatever the predicate.
\<close>

lemma filter_visits_ge: "Suc (length xs) \<le> filter_visits p xs"
proof (induction xs)
  case Nil
  show ?case by simp
next
  case (Cons x xs)
  have "1 \<le> filter_visits p (filter p xs)"
    by (cases "filter p xs") simp_all
  with Cons show ?case by simp
qed

lemma filter_visits_Cons_gt: "Suc (length (x # xs)) < filter_visits p (x # xs)"
proof -
  have "1 \<le> filter_visits p (filter p xs)"
    by (cases "filter p xs") simp_all
  with filter_visits_ge [of xs p] show ?thesis by simp
qed

lemma filter_visits_True_Suc: "Suc (filter_visits (\<lambda>_. True) xs) = 2 ^ Suc (length xs)"
  by (induction xs) simp_all

lemma filter_visits_True: "filter_visits (\<lambda>_. True) xs = 2 ^ Suc (length xs) - 1"
  using filter_visits_True_Suc [of xs] by arith

text \<open>
  No constant bounds the dispatches of the filter by a multiple of the number of nodes:
  for every \<open>c\<close>, the list of \<open>2 * c\<close> elements takes more than \<open>c\<close> dispatches for each
  of its \<open>2 * c + 1\<close> nodes.
\<close>

lemma linear_less_exp: "c * Suc (2 * c) < 2 ^ Suc (2 * c) - (1::nat)"
proof -
  have a: "Suc c \<le> 2 ^ c" by (induction c) simp_all
  have "Suc c * Suc c \<le> 2 ^ c * 2 ^ c" by (rule mult_le_mono [OF a a])
  also have "\<dots> = 2 ^ (2 * c)" by (simp add: power_add mult_2)
  finally have b: "Suc c * Suc c \<le> 2 ^ (2 * c)" .
  have "c * Suc (2 * c) + 1 < 2 * (Suc c * Suc c)" by (simp add: algebra_simps)
  also have "\<dots> \<le> 2 * 2 ^ (2 * c)" using b by simp
  finally show ?thesis by simp
qed

lemma filter_adt_visits_not_linear:
  "\<forall>c. \<exists>l :: unit List. \<exists>n. visits (filter_adt (\<lambda>x. True) l) = Some n \<and>
      c * Suc (length (elems l)) < n"
proof
  fix c :: nat
  let ?l = "of_elems (replicate (2 * c) ())"
  have "visits (filter_adt (\<lambda>x. True) ?l) = Some (2 ^ Suc (2 * c) - 1)"
    by (simp add: filter_adt_eq filter_visits_True)
  moreover have "c * Suc (length (elems ?l)) < 2 ^ Suc (2 * c) - 1"
    using linear_less_exp [of c] by simp
  ultimately show "\<exists>l :: unit List. \<exists>n. visits (filter_adt (\<lambda>x. True) l) = Some n \<and>
      c * Suc (length (elems l)) < n"
    by blast
qed

subsection \<open>Printing\<close>

lemma op_shl_NilT: "op_shl sh out NilT = out @ ''nil''"
  by (simp add: op_shl.simps [of _ _ NilT])

lemma op_shl_ConsT: "op_shl sh out (ConsT h t) = op_shl sh (out @ sh h @ '' &= '') t"
  by (simp add: op_shl.simps [of _ _ "ConsT h t"])

lemma op_shl_append: "op_shl sh out l = out @ op_shl sh [] l"
proof (induction l arbitrary: out)
  case NilT
  show ?case by (simp add: op_shl_NilT)
next
  case (ConsT h t)
  show ?case
    by (simp add: op_shl_ConsT ConsT.IH [of "out @ sh h @ '' &= ''"]
        ConsT.IH [of "sh h @ '' &= ''"])
qed

lemmas show_digit = show_int_def show_nat.simps digit_char_def

section \<open>Properties of the specification\<close>

text \<open>
  C1. For every combining function \<open>f\<close>, seed, head \<open>h\<close> and list \<open>t\<close>: the fold of the
  empty list returns the seed unchanged, and the fold of \<open>cons h t\<close> returns \<open>f\<close> applied
  to \<open>h\<close> and to what the fold of \<open>t\<close> returns (it returns nothing when the fold of \<open>t\<close>
  or that call of \<open>f\<close> does not return). For a combining function \<open>g\<close> that is an
  ordinary total function, the fold of \<open>t\<close> returns some \<open>r\<close> and the fold of
  \<open>cons h t\<close> returns \<open>g h r\<close>.
\<close>

theorem foldr_adt_laws:
  "result (foldr_adt f seed nil) = Some seed \<and>
   result (foldr_adt f seed (cons h t)) =
     Option.bind (result (foldr_adt f seed t)) (\<lambda>r. result (f h r)) \<and>
   (\<exists>r. result (foldr_adt (\<lambda>x a. return (g x a)) seed t) = Some r \<and>
        result (foldr_adt (\<lambda>x a. return (g x a)) seed (cons h t)) = Some (g h r))"
proof (intro conjI)
  show "result (foldr_adt f seed nil) = Some seed"
    by (simp add: ctor_defs foldr_adt_NilT)
  show "result (foldr_adt f seed (cons h t)) =
      Option.bind (result (foldr_adt f seed t)) (\<lambda>r. result (f h r))"
    by (simp add: ctor_defs foldr_adt_ConsT result_tick result_bind)
  show "\<exists>r. result (foldr_adt (\<lambda>x a. return (g x a)) seed t) = Some r \<and>
        result (foldr_adt (\<lambda>x a. return (g x a)) seed (cons h t)) = Some (g h r)"
    by (simp add: ctor_defs foldr_adt_pure)
qed

text \<open>
  C2. The specification has the filter be the fold with the combining function
  \<open>pred(x) ? prepend(x, acc) : acc\<close> and nothing more: \<open>filter_spec\<close>. For every
  predicate and every list, the filter of the program returns the list that
  \<open>filter_spec\<close> returns, but it is not that fold: its lambda calls the filter again,
  on the accumulator. On every list that is not empty, with every predicate, the program
  dispatches more often than once for each node, which is what \<open>filter_spec\<close> does, so
  the two computations differ. In the call of \<open>main\<close>, with \<open>x % 2 == 0\<close> on the list of
  1, 2, 3, the program returns the list of 2 after 9 dispatches and \<open>filter_spec\<close>
  after 4.
\<close>

theorem filter_adt_not_fold_instance:
  "(\<exists>r. result (filter_adt pred l) = Some r \<and> result (filter_spec pred l) = Some r) \<and>
   (\<exists>n. visits (filter_adt pred (cons h t)) = Some n \<and>
        Suc (length (elems (cons h t))) < n \<and>
        visits (filter_spec pred (cons h t)) = Some (Suc (length (elems (cons h t))))) \<and>
   filter_adt pred (cons h t) \<noteq> filter_spec pred (cons h t) \<and>
   filter_adt (\<lambda>x. int_rem x 2 = 0) main_bs = Some (cons 2 nil, 9) \<and>
   filter_spec (\<lambda>x. int_rem x 2 = 0) main_bs = Some (cons 2 nil, 4)"
proof (intro conjI)
  show "\<exists>r. result (filter_adt pred l) = Some r \<and> result (filter_spec pred l) = Some r"
    by (rule filter_adt_result_eq)
  have gt: "Suc (length (elems (cons h t))) < filter_visits pred (elems (cons h t))"
    using filter_visits_Cons_gt [of h "elems t" pred] by (simp add: ctor_defs)
  then show "\<exists>n. visits (filter_adt pred (cons h t)) = Some n \<and>
        Suc (length (elems (cons h t))) < n \<and>
        visits (filter_spec pred (cons h t)) = Some (Suc (length (elems (cons h t))))"
    by (simp add: filter_adt_eq filter_spec_eq)
  from gt show "filter_adt pred (cons h t) \<noteq> filter_spec pred (cons h t)"
    by (simp add: filter_adt_eq filter_spec_eq)
  show "filter_adt (\<lambda>x. int_rem x 2 = 0) main_bs = Some (cons 2 nil, 9)"
    by (simp add: filter_adt_eq main_bs_def ctor_defs int_rem_def)
  show "filter_spec (\<lambda>x. int_rem x 2 = 0) main_bs = Some (cons 2 nil, 4)"
    by (simp add: filter_spec_eq main_bs_def ctor_defs int_rem_def)
qed

text \<open>
  C4. For every head \<open>h\<close>, tail \<open>t\<close> and pair of branch functions, \<open>cases\<close> on \<open>cons h t\<close>
  returns \<open>onNonEmpty h t\<close> and \<open>cases\<close> on \<open>nil\<close> returns \<open>onEmpty ()\<close>. Every list \<open>l\<close>
  is built by exactly one of the two constructors, and \<open>cases\<close> on \<open>l\<close> is the call of
  the branch of that constructor, on the fields it was built from.
\<close>

theorem cases_laws:
  "cases (cons h t) onNonEmpty onEmpty = onNonEmpty h t \<and>
   cases nil onNonEmpty onEmpty = onEmpty () \<and>
   ((\<exists>h' t'. l = cons h' t' \<and> l \<noteq> nil \<and> cases l onNonEmpty onEmpty = onNonEmpty h' t') \<or>
    (l = nil \<and> (\<forall>h' t'. l \<noteq> cons h' t') \<and> cases l onNonEmpty onEmpty = onEmpty ()))"
  by (cases l) (simp_all add: ctor_defs)

text \<open>
  C5. The sum is the fold with the combining function \<open>x + acc\<close> and the zero of the
  element type as seed: it returns the right-nested sum of the elements. The sum of the
  list of 1, 2, 3 is 6 and the sum of the empty list of integers is 0.
\<close>

theorem sum_adt_correct:
  "sum_adt l = foldr_adt (\<lambda>x acc. return (x + acc)) 0 l \<and>
   result (sum_adt l) = Some (foldr (+) (elems l) 0) \<and>
   result (sum_adt main_as) = Some 6 \<and>
   result (sum_adt (cons 1 (cons 2 (cons 3 nil)))) = Some (6::int) \<and>
   result (sum_adt (nil :: int List)) = Some 0"
  by (simp add: sum_adt_eq foldr_adt_pure main_as_def ctor_defs)

text \<open>
  C6. For every function \<open>f\<close> and every list \<open>l\<close>, the map returns a list of the length
  of \<open>l\<close> whose \<open>i\<close>-th element is \<open>f\<close> applied to the \<open>i\<close>-th element of \<open>l\<close>. Mapping
  \<open>x * 2\<close> over the list of 1, 2, 3 returns the list printed as \<open>2 &= 4 &= 6 &= nil\<close>.
  The list \<open>l\<close> is a value here, as it is in the source, where no function assigns to
  a field of a node once \<^verbatim>\<open>List<T>::cons\<close> or \<^verbatim>\<open>List<T>::nil\<close> has returned it: the map
  builds its result with \<^verbatim>\<open>operator&=\<close> alone, and \<open>l\<close> is after the call what it was
  before.
\<close>

theorem map_adt_correct:
  "(\<exists>r. result (map_adt f l) = Some r \<and>
        elems r = map f (elems l) \<and>
        length (elems r) = length (elems l) \<and>
        (\<forall>i. i < length (elems l) \<longrightarrow> elems r ! i = f (elems l ! i))) \<and>
   (\<exists>r. result (map_adt (\<lambda>x. x * 2) main_bs) = Some r \<and>
        op_shl show_int [] r = ''2 &= 4 &= 6 &= nil'')"
  by (simp add: map_adt_eq main_bs_def ctor_defs op_shl_NilT op_shl_ConsT show_digit)

text \<open>The list \<open>cs\<close> of \<open>main\<close>: three elements, the second one twice 2.\<close>

theorem map_adt_correct_witness:
  "\<exists>r. result main_cs = Some r \<and> length (elems r) = 3 \<and> (1::nat) < 3 \<and> elems r ! 1 = 2 * 2"
proof -
  from map_adt_correct [of "\<lambda>x. x * 2" main_bs]
  obtain r where r: "result (map_adt (\<lambda>x. x * 2) main_bs) = Some r"
    and len: "length (elems r) = length (elems main_bs)"
    and nth: "\<forall>i. i < length (elems main_bs) \<longrightarrow> elems r ! i = elems main_bs ! i * 2"
    by blast
  have three: "length (elems main_bs) = 3" and one: "elems main_bs ! 1 = 2"
    by (simp_all add: main_bs_def ctor_defs)
  from nth three one have "elems r ! 1 = 2 * 2" by simp
  with r len three show ?thesis by (simp add: main_cs_def)
qed

text \<open>
  C7. For every predicate \<open>pred\<close> and every list \<open>l\<close>, the filter returns the list of
  the elements of \<open>l\<close> that satisfy \<open>pred\<close>, in the order they have in \<open>l\<close>, and this list
  is no longer than \<open>l\<close>. Filtering the list of 1, 2, 3 with \<open>x % 2 == 0\<close> returns the
  list printed as \<open>2 &= nil\<close>.
\<close>

theorem filter_adt_correct:
  "(\<exists>r. result (filter_adt pred l) = Some r \<and>
        elems r = filter pred (elems l) \<and>
        length (elems r) \<le> length (elems l)) \<and>
   (\<exists>r. result (filter_adt (\<lambda>x. int_rem x 2 = 0) main_bs) = Some r \<and>
        op_shl show_int [] r = ''2 &= nil'')"
  by (simp add: filter_adt_eq main_bs_def ctor_defs int_rem_def op_shl_NilT op_shl_ConsT
      show_digit)

text \<open>
  C8. For all elements \<open>a\<close>, \<open>b\<close>, \<open>c\<close>, the list written \<open>a &= b &= c &= nil\<close>, which
  C++ reads from the right as \<open>a &= (b &= (c &= nil))\<close>, is the list built by the nested
  calls \<open>cons a (cons b (cons c nil))\<close>; the lists \<open>bs\<close> and \<open>as\<close> of \<open>main\<close> are equal.
\<close>

theorem op_and_assign_nested_cons:
  "op_and_assign a (op_and_assign b (op_and_assign c nil)) = cons a (cons b (cons c nil)) \<and>
   main_bs = main_as"
  by (simp add: main_bs_def main_as_def op_and_assign_def cons_def)

text \<open>
  C9. Printing the empty list writes \<open>nil\<close>; printing \<open>cons h t\<close> writes the head, then
  the token \<open> &= \<close>, then what printing \<open>t\<close> writes. The list of 1, 2, 3 is printed as
  \<open>1 &= 2 &= 3 &= nil\<close>.
\<close>

theorem op_shl_renders:
  "op_shl sh out nil = out @ ''nil'' \<and>
   op_shl sh out (cons h t) = out @ sh h @ '' &= '' @ op_shl sh [] t \<and>
   op_shl show_int [] main_as = ''1 &= 2 &= 3 &= nil''"
  by (simp add: main_as_def ctor_defs op_shl_NilT op_shl_ConsT show_digit
      op_shl_append [of sh "out @ sh h @ '' &= ''" t])

text \<open>
  C10. The fold, the sum, the map and the filter return on every list (\<open>foldr_adt_returns\<close>,
  \<open>sum_adt_eq\<close>, \<open>map_adt_eq\<close>, \<open>filter_adt_returns\<close>), and the fold with a combining
  function that dispatches on no node, the sum and the map dispatch once on each node
  (\<open>foldr_adt_pure\<close>). The filter does not: with the predicate that holds everywhere it
  dispatches \<open>2 ^ (n + 1) - 1\<close> times on a list of \<open>n\<close> elements, where the reference
  definition dispatches \<open>n + 1\<close> times, so that no multiple of the number of nodes
  bounds it (\<open>filter_adt_visits_not_linear\<close>). On the list of 1, 2, 3 that is 15
  dispatches, and the call \<open>main\<close> makes, with \<open>x % 2 == 0\<close>, takes 9.
\<close>

theorem filter_adt_visits_exponential:
  "visits (filter_adt (\<lambda>x. True) l) = Some (2 ^ Suc (length (elems l)) - 1) \<and>
   visits (filter_spec (\<lambda>x. True) l) = Some (Suc (length (elems l))) \<and>
   filter_adt (\<lambda>x. True) main_bs = Some (main_bs, 15) \<and>
   main_ds = Some (cons 2 nil, 9)"
  by (simp add: filter_adt_eq filter_spec_eq filter_visits_True main_ds_def main_bs_def
      ctor_defs int_rem_def)

end
